theory Spec2Isabelle
  imports Complex_Main "HOL-Library.Word"
begin

section \<open>Data model\<close>

text \<open>
  An effect identifier is a JavaScript string; a pattern slot is \<^verbatim>\<open>string | null\<close>,
  so a pattern is a list of optional strings (\<open>None\<close> is \<^verbatim>\<open>null\<close>).
  Numbers are JavaScript doubles; they are modelled as reals.
\<close>

type_synonym fx = string
type_synonym pattern = "fx option list"

text \<open>\<^verbatim>\<open>Array(16).fill(null)\<close>, the initial pattern of \<^verbatim>\<open>App\<close>.\<close>

definition emptyPattern :: pattern where
  "emptyPattern = replicate 16 None"

text \<open>
  JavaScript truthiness of a slot (\<^verbatim>\<open>if (fx && ...)\<close>, \<^verbatim>\<open>if (pattern[i])\<close>):
  \<^verbatim>\<open>null\<close> and the empty string are falsy, every other string is truthy.
\<close>

fun truthy :: "fx option \<Rightarrow> bool" where
  "truthy None = False"
| "truthy (Some s) = (s \<noteq> [])"

text \<open>
  \<^verbatim>\<open>pattern[i]\<close>: a read beyond the end of the array is \<^verbatim>\<open>undefined\<close>, which is
  falsy like \<^verbatim>\<open>null\<close>.
\<close>

definition slot :: "pattern \<Rightarrow> nat \<Rightarrow> fx option" where
  "slot p i = (if i < length p then p ! i else None)"

section \<open>Pattern editing (App.tsx)\<close>

text \<open>
  \<^verbatim>\<open>newPattern[index] = v\<close> on a copy of the pattern. Inside the array the slot is
  overwritten; beyond its end JavaScript extends the array, the slots in between being
  holes (read as \<^verbatim>\<open>undefined\<close>, falsy and joined as the empty string, like
  \<^verbatim>\<open>null\<close>), written \<open>None\<close> here.
\<close>

definition assignSlot :: "pattern \<Rightarrow> nat \<Rightarrow> fx option \<Rightarrow> pattern" where
  "assignSlot p index v =
     (if index < length p then p[index := v]
      else p @ replicate (index - length p) None @ [v])"

text \<open>
  \<^verbatim>\<open>newPattern[index]\<close>: beyond the end the read is \<^verbatim>\<open>undefined\<close>, which is
  \<^verbatim>\<open>===\<close> to no string.
\<close>

definition slotIs :: "pattern \<Rightarrow> nat \<Rightarrow> fx \<Rightarrow> bool" where
  "slotIs p index f = (index < length p \<and> p ! index = Some f)"

text \<open>
  \<^verbatim>\<open>handleToggleStep(index)\<close>, with the component state it reads (\<^verbatim>\<open>pattern\<close>,
  \<^verbatim>\<open>selectedFx\<close>) as arguments and the pattern it stores with \<^verbatim>\<open>setPattern\<close> as
  result.
\<close>

definition handleToggleStep :: "pattern \<Rightarrow> fx \<Rightarrow> nat \<Rightarrow> pattern" where
  "handleToggleStep p selectedFx index =
     (if slotIs p index selectedFx then assignSlot p index None
      else assignSlot p index (Some selectedFx))"

section \<open>Randomising the pattern (App.tsx)\<close>











section \<open>Audio buffers and the WAV encoder (services/audioUtils.ts)\<close>

text \<open>
  An \<^verbatim>\<open>AudioBuffer\<close>: its sample rate and one array of samples per channel
  (\<^verbatim>\<open>getChannelData(i)\<close>). Samples are 32-bit floats; the encoder multiplies them
  by a 15-bit or 16-bit integer in double precision, which is exact, and the decoder
  divides a 16-bit integer by a power of two, which is exact as well, so real
  arithmetic computes the same values.
\<close>

type_synonym byte = "8 word"

record audioBuffer =
  sampleRate :: nat
  channelData :: "real list list"

definition numberOfChannels :: "audioBuffer \<Rightarrow> nat" where
  "numberOfChannels b = length (channelData b)"

text \<open>\<^verbatim>\<open>buffer.length\<close>, the number of frames; every channel has that many samples.\<close>

definition bufLength :: "audioBuffer \<Rightarrow> nat" where
  "bufLength b = (case channelData b of [] \<Rightarrow> 0 | c # _ \<Rightarrow> length c)"

definition duration :: "audioBuffer \<Rightarrow> real" where
  "duration b = real (bufLength b) / real (sampleRate b)"

text \<open>
  The \<^verbatim>\<open>DataView\<close> setters, as the bytes they store. All calls pass
  \<^verbatim>\<open>littleEndian = true\<close>. An integer argument is reduced modulo the width
  (\<open>of_nat\<close> into a byte does that); a fractional argument is truncated towards zero
  first (\<open>toInteger\<close>), and \<^verbatim>\<open>NaN\<close>, here \<open>None\<close>, is stored as 0.
\<close>

definition toInteger :: "real \<Rightarrow> int" where
  "toInteger v = (if v < 0 then \<lceil>v\<rceil> else \<lfloor>v\<rfloor>)"

definition setUint16 :: "nat \<Rightarrow> byte list" where
  "setUint16 v = [of_nat v, of_nat (v div 256)]"

definition setUint32 :: "nat \<Rightarrow> byte list" where
  "setUint32 v = [of_nat v, of_nat (v div 256), of_nat (v div 65536), of_nat (v div 16777216)]"

definition toInt16 :: "real option \<Rightarrow> 16 word" where
  "toInt16 v = (case v of None \<Rightarrow> 0 | Some x \<Rightarrow> word_of_int (toInteger x))"

definition setInt16 :: "real option \<Rightarrow> byte list" where
  "setInt16 v = (let w = toInt16 v in [ucast w, ucast (drop_bit 8 w)])"

text \<open>\<^verbatim>\<open>writeString\<close>: one \<^verbatim>\<open>setUint8\<close> of the character code per character.\<close>

definition writeString :: "string \<Rightarrow> byte list" where
  "writeString str = map (\<lambda>c. of_nat (of_char c)) str"

text \<open>
  \<^verbatim>\<open>channels[i][offset]\<close>: a read beyond the array is \<^verbatim>\<open>undefined\<close>, which
  \<^verbatim>\<open>Math.min\<close> turns into \<^verbatim>\<open>NaN\<close> (\<open>None\<close>).
\<close>

definition sampleAt :: "real list \<Rightarrow> nat \<Rightarrow> real option" where
  "sampleAt c offset = (if offset < length c then Some (c ! offset) else None)"

text \<open>\<^verbatim>\<open>Math.max(-1, Math.min(1, x))\<close>\<close>

definition clampSample :: "real option \<Rightarrow> real option" where
  "clampSample v = map_option (\<lambda>x. max (- 1) (min 1 x)) v"

text \<open>\<^verbatim>\<open>sample < 0 ? sample * 0x8000 : sample * 0x7FFF\<close>\<close>

definition scaleSample :: "real option \<Rightarrow> real option" where
  "scaleSample v = map_option (\<lambda>s. if s < 0 then s * 32768 else s * 32767) v"

text \<open>The 44 bytes written before the samples; \<open>len\<close> is the source's \<^verbatim>\<open>length\<close>.\<close>

definition wavHeader :: "audioBuffer \<Rightarrow> byte list" where
  "wavHeader b =
    (let numOfChan = numberOfChannels b;
         len = bufLength b * numOfChan * 2 + 44
     in writeString ''RIFF'' @ setUint32 (len - 8) @ writeString ''WAVE''
      @ writeString ''fmt '' @ setUint32 16 @ setUint16 1 @ setUint16 numOfChan
      @ setUint32 (sampleRate b) @ setUint32 (sampleRate b * 2 * numOfChan)
      @ setUint16 (numOfChan * 2) @ setUint16 16
      @ writeString ''data'' @ setUint32 (len - 40 - 4))"

text \<open>One pass of the \<^verbatim>\<open>while\<close> loop: the frame at \<open>offset\<close>, one sample per channel.\<close>

definition frameBytes :: "real list list \<Rightarrow> nat \<Rightarrow> byte list" where
  "frameBytes channels offset =
     concat (map (\<lambda>c. setInt16 (scaleSample (clampSample (sampleAt c offset)))) channels)"

text \<open>
  The loop runs while \<^verbatim>\<open>pos < length\<close>; \<^verbatim>\<open>pos\<close> starts at 44 and grows by
  \<^verbatim>\<open>2 * numOfChan\<close> per pass, so it makes \<^verbatim>\<open>buffer.length\<close> passes (none when
  there is no channel, as \<open>bufLength\<close> is 0 then).
\<close>

definition pcmData :: "audioBuffer \<Rightarrow> byte list" where
  "pcmData b = concat (map (frameBytes (channelData b)) [0..<bufLength b])"

text \<open>\<^verbatim>\<open>exportToWav\<close>, as the bytes of the blob.\<close>

definition exportToWav :: "audioBuffer \<Rightarrow> byte list" where
  "exportToWav b = wavHeader b @ pcmData b"

text \<open>
  \<^verbatim>\<open>new Int16Array(data.buffer, data.byteOffset, data.byteLength / 2)\<close>: a view of
  the bytes as 16-bit signed integers in platform byte order, taken little-endian
  here; a trailing odd byte is not part of the view.
\<close>

fun int16Array :: "byte list \<Rightarrow> 16 word list" where
  "int16Array (lo # hi # rest) = word_cat hi lo # int16Array rest"
| "int16Array _ = []"

text \<open>
  \<^verbatim>\<open>decodePCMAudioData\<close>: two channels at 48000 Hz; \<^verbatim>\<open>createBuffer\<close> truncates
  a fractional frame count, and the write of a frame beyond the channel array is
  dropped.
\<close>

definition decodePCMAudioData :: "byte list \<Rightarrow> audioBuffer" where
  "decodePCMAudioData data =
     (let dataInt16 = int16Array data;
          frameCount = length dataInt16 div 2
      in \<lparr>sampleRate = 48000,
          channelData = map (\<lambda>channel.
             map (\<lambda>i. real_of_int (sint (dataInt16 ! (i * 2 + channel))) / 32768) [0..<frameCount])
             [0..<2]\<rparr>)"

text \<open>
  The 16-bit value the encoder stores for an in-range read \<open>x\<close>, and the value the
  decoder computes from a stored one.
\<close>

definition encodeSample :: "real \<Rightarrow> 16 word" where
  "encodeSample x = toInt16 (scaleSample (clampSample (Some x)))"

definition decodeSample :: "16 word \<Rightarrow> real" where
  "decodeSample w = real_of_int (sint w) / 32768"

section \<open>Exporting the sequence (App.tsx)\<close>

text \<open>
  What \<^verbatim>\<open>exportSequence\<close> puts into the \<^verbatim>\<open>OfflineAudioContext\<close>: the arguments
  of its constructor and, for each source it creates, the buffer and the start time.
  Every source is connected to \<^verbatim>\<open>offlineContext.destination\<close> directly; no other
  node is created.
\<close>

record offlineSource =
  buffer :: audioBuffer
  startTime :: real

record offlineContext =
  channels :: nat
  totalFrames :: int
  contextRate :: nat
  sources :: "offlineSource list"

text \<open>One pass of the \<^verbatim>\<open>for\<close> loop, for step \<open>i\<close>.\<close>

definition exportStep ::
  "audioBuffer \<Rightarrow> audioBuffer option \<Rightarrow> pattern \<Rightarrow> real \<Rightarrow> nat \<Rightarrow> offlineSource list" where
  "exportStep sequencerSample reversedSequencerSample p secondsPerStep i =
     (if truthy (slot p i)
      then [\<lparr>buffer = (case (slot p i = Some ''reverse'', reversedSequencerSample) of
                          (True, Some reversed) \<Rightarrow> reversed
                        | _ \<Rightarrow> sequencerSample),
             startTime = real i * secondsPerStep\<rparr>]
      else [])"

text \<open>
  \<^verbatim>\<open>exportSequence\<close> up to \<^verbatim>\<open>startRendering\<close>, with the state it reads as
  arguments: the two samples, the sample rate of the audio context (\<open>None\<close> when there
  is no context), the pattern and the tempo (\<^verbatim>\<open>bpm\<close>). \<open>None\<close> is the early return.
\<close>

definition exportSequence ::
  "audioBuffer option \<Rightarrow> audioBuffer option \<Rightarrow> nat option \<Rightarrow> pattern \<Rightarrow> real
     \<Rightarrow> offlineContext option" where
  "exportSequence sequencerSample reversedSequencerSample audioContextRate p tempo =
     (case (sequencerSample, audioContextRate) of
        (Some sample, Some rate) \<Rightarrow>
          (let secondsPerStep = 60 / tempo / 4;
               totalDuration = secondsPerStep * 16
           in Some \<lparr>channels = numberOfChannels sample,
                     totalFrames = \<lfloor>totalDuration * real rate\<rfloor>,
                     contextRate = rate,
                     sources = concat (map
                       (exportStep sample reversedSequencerSample p secondsPerStep) [0..<16])\<rparr>)
      | _ \<Rightarrow> None)"

text \<open>The duration in seconds of what the context renders: its frames over its rate.\<close>

definition contextDuration :: "offlineContext \<Rightarrow> real" where
  "contextDuration c = real_of_int (totalFrames c) / real (contextRate c)"

section \<open>The step sequencer (components/Sequencer.tsx)\<close>

subsection \<open>The audio graph as a log of calls\<close>

text \<open>
  The scheduler acts on the Web Audio context only: it creates nodes, sets their
  parameters, connects them and schedules starts and stops. Each such call is one
  \<open>command\<close>, and triggering a step yields the list of its calls in program order.
  Nodes are named after the local variables that hold them (\<open>Gain i\<close> and
  \<open>StutterSource i\<close> are the \<^verbatim>\<open>gain\<close> and \<^verbatim>\<open>stutterSource\<close> of pass \<open>i\<close> of a loop;
  \<open>Limiter\<close> is \<^verbatim>\<open>limiterRef.current\<close>, the master bus; \<open>Dummy\<close> is the gain node
  that glitch and stutter put in \<^verbatim>\<open>currentNode\<close>).
\<close>

datatype node =
    Source | Limiter | Convolver | Delay | Feedback | WetLevel | DelayL | DelayR
  | Merger | Splitter | Gain nat | StutterSource nat | Dummy | Filter
  | Allpass1 | Allpass2 | Lfo | LfoGain | Panner | GateGain | Crusher

text \<open>The node types; a delay node carries its maximal delay, a splitter or merger its channel count.\<close>

datatype kind =
    BufferSource | ConvolverNode | DelayNode real | GainNode | ChannelMerger nat
  | ChannelSplitter nat | BiquadFilter | Oscillator | StereoPanner | WaveShaper

datatype param =
    GainParam | DelayTimeParam | FrequencyParam | QParam | PlaybackRateParam | DetuneParam
  | PanParam

datatype bufferRef = SampleBuffer | ReversedSampleBuffer | ImpulseResponse

text \<open>
  \<open>Create n k\<close> is \<^verbatim>\<open>n = audioContext.createK()\<close>; \<open>SetBuffer n b\<close> is
  \<^verbatim>\<open>n.buffer = b\<close>; \<open>Connect a b\<close>, \<open>ConnectOut a b output\<close> and
  \<open>ConnectOutIn a b output input\<close> are \<^verbatim>\<open>a.connect(b, ...)\<close>; \<open>ConnectParam a b p\<close> is
  \<^verbatim>\<open>a.connect(b.p)\<close>; \<open>SetValue n p v\<close> is \<^verbatim>\<open>n.p.value = v\<close>;
  \<open>SetValueAtTime n p v t\<close> and the two ramps are the automation calls of the same
  name; \<open>SetType\<close> sets \<^verbatim>\<open>type\<close>; \<open>SetCurve\<close> sets the wave shaper's curve (a table
  of 32-bit floats whose content is not modelled); \<open>Start n t\<close> is \<^verbatim>\<open>n.start(t)\<close>,
  \<open>StartSlice n t offset d\<close> is \<^verbatim>\<open>n.start(t, offset, d)\<close>, \<open>Stop n t\<close> is
  \<^verbatim>\<open>n.stop(t)\<close>.
\<close>

datatype command =
    Create node kind
  | SetBuffer node bufferRef
  | Connect node node
  | ConnectOut node node nat
  | ConnectOutIn node node nat nat
  | ConnectParam node node param
  | SetValue node param real
  | SetValueAtTime node param real real
  | LinearRampToValueAtTime node param real real
  | ExponentialRampToValueAtTime node param real real
  | SetType node string
  | SetCurve node
  | Start node real
  | StartSlice node real real real
  | Stop node real

text \<open>The scheduled starts of a list of calls, and its connections as (from, to) pairs.\<close>

fun isStart :: "command \<Rightarrow> bool" where
  "isStart (Start n t) = True"
| "isStart (StartSlice n t offset d) = True"
| "isStart c = False"

fun connectionOf :: "command \<Rightarrow> (node \<times> node) option" where
  "connectionOf (Connect a b) = Some (a, b)"
| "connectionOf (ConnectOut a b output) = Some (a, b)"
| "connectionOf (ConnectOutIn a b output input) = Some (a, b)"
| "connectionOf (ConnectParam a b p) = Some (a, b)"
| "connectionOf c = None"

fun gainSettingOf :: "command \<Rightarrow> (node \<times> real \<times> real) option" where
  "gainSettingOf (SetValueAtTime n GainParam v t) = Some (n, v, t)"
| "gainSettingOf c = None"

definition starts :: "command list \<Rightarrow> command list" where
  "starts cs = filter isStart cs"

definition connections :: "command list \<Rightarrow> (node \<times> node) list" where
  "connections cs = List.map_filter connectionOf cs"

text \<open>The gains scheduled with \<^verbatim>\<open>gain.setValueAtTime\<close>: node, value and time.\<close>

definition gainSettings :: "command list \<Rightarrow> (node \<times> real \<times> real) list" where
  "gainSettings cs = List.map_filter gainSettingOf cs"

subsection \<open>Triggering one step\<close>

text \<open>
  What the scheduler closes over: the props \<^verbatim>\<open>bpm\<close>, \<^verbatim>\<open>sampleBuffer\<close>,
  \<^verbatim>\<open>reversedSampleBuffer\<close>, \<^verbatim>\<open>audioContext\<close> and \<^verbatim>\<open>pattern\<close>, whether
  \<^verbatim>\<open>limiterRef.current\<close> and \<^verbatim>\<open>impulseResponseRef.current\<close> are set, and whether
  the context has \<^verbatim>\<open>createStereoPanner\<close>.
\<close>

record sequencerProps =
  bpm :: real
  sampleBuffer :: "audioBuffer option"
  reversedSampleBuffer :: "audioBuffer option"
  audioContext :: bool
  pattern :: pattern
  limiterRef :: bool
  impulseResponseRef :: bool
  createStereoPanner :: bool

text \<open>Pass \<open>i\<close> of the loop of the glitch case, and of the loop of the stutter case.\<close>

definition glitchRepeat :: "real \<Rightarrow> nat \<Rightarrow> command list" where
  "glitchRepeat playTime i =
     [Create (Gain i) GainNode,
      SetValueAtTime (Gain i) GainParam (1 - real i / 3) (playTime + real i * 0.05),
      Create (StutterSource i) BufferSource,
      SetBuffer (StutterSource i) SampleBuffer,
      Connect (StutterSource i) (Gain i),
      Connect (Gain i) Limiter,
      StartSlice (StutterSource i) (playTime + real i * 0.05) 0 0.05]"

definition stutterRepeat :: "real \<Rightarrow> real \<Rightarrow> nat \<Rightarrow> command list" where
  "stutterRepeat playTime repeatTime i =
     [Create (StutterSource i) BufferSource,
      SetBuffer (StutterSource i) SampleBuffer,
      Connect (StutterSource i) Limiter,
      StartSlice (StutterSource i) (playTime + real i * repeatTime) 0 repeatTime]"

text \<open>
  The \<^verbatim>\<open>switch (fx)\<close>: the calls of the matching case and the node left in
  \<^verbatim>\<open>currentNode\<close>. An identifier with no case (\<^verbatim>\<open>normal\<close>, \<^verbatim>\<open>reverse\<close>) makes no
  call. \<open>sample\<close> is the non-null \<^verbatim>\<open>sampleBuffer\<close>.
\<close>

definition effectChain :: "sequencerProps \<Rightarrow> audioBuffer \<Rightarrow> fx \<Rightarrow> real \<Rightarrow> command list \<times> node" where
  "effectChain P sample f playTime =
    (if f = ''reverb'' then
       (if impulseResponseRef P
        then ([Create Convolver ConvolverNode, SetBuffer Convolver ImpulseResponse,
               Connect Source Convolver], Convolver)
        else ([], Source))
     else if f = ''delay'' then
       ([Create Delay (DelayNode 5), SetValue Delay DelayTimeParam ((60 / bpm P) * 0.75),
         Create Feedback GainNode, SetValue Feedback GainParam 0.4,
         Create WetLevel GainNode, SetValue WetLevel GainParam 0.5,
         Connect Source Delay, Connect Delay Feedback, Connect Feedback Delay,
         Connect Delay WetLevel, Connect WetLevel Limiter], Source)
     else if f = ''pingPong'' then
       ([Create DelayL (DelayNode 5), Create DelayR (DelayNode 5), Create Feedback GainNode,
         Create Merger (ChannelMerger 2), Create Splitter (ChannelSplitter 2),
         SetValue DelayL DelayTimeParam ((60 / bpm P) / 2), SetValue DelayR DelayTimeParam ((60 / bpm P) / 2),
         SetValue Feedback GainParam 0.5,
         Connect Source Splitter, ConnectOut Splitter DelayL 0, ConnectOut Splitter DelayR 1,
         Connect DelayL Feedback, Connect Feedback DelayR,
         ConnectOutIn DelayR Merger 0 1, ConnectOutIn DelayL Merger 0 0], Merger)
     else if f = ''glitch'' then
       (concat (map (glitchRepeat playTime) [0..<3]) @ [Create Dummy GainNode], Dummy)
     else if f = ''stutter'' then
       (concat (map (stutterRepeat playTime ((60 / bpm P) / 8)) [0..<4]) @ [Create Dummy GainNode],
        Dummy)
     else if f = ''tapeStop'' then
       ([SetValueAtTime Source PlaybackRateParam 1 playTime,
         ExponentialRampToValueAtTime Source PlaybackRateParam 0.01 (playTime + duration sample * 0.75)],
        Source)
     else if f = ''lowpass'' then
       ([Create Filter BiquadFilter, SetType Filter ''lowpass'', SetValue Filter FrequencyParam 800,
         Connect Source Filter], Filter)
     else if f = ''highpass'' then
       ([Create Filter BiquadFilter, SetType Filter ''highpass'', SetValue Filter FrequencyParam 4000,
         Connect Source Filter], Filter)
     else if f = ''bandpass'' then
       ([Create Filter BiquadFilter, SetType Filter ''bandpass'', SetValue Filter FrequencyParam 1500,
         SetValue Filter QParam 5, Connect Source Filter], Filter)
     else if f = ''filterSweep'' then
       ([Create Filter BiquadFilter, SetType Filter ''lowpass'', SetValue Filter QParam 3,
         SetValueAtTime Filter FrequencyParam 100 playTime,
         ExponentialRampToValueAtTime Filter FrequencyParam 8000 (playTime + duration sample),
         Connect Source Filter], Filter)
     else if f = ''phaser'' then
       ([Create Allpass1 BiquadFilter, SetType Allpass1 ''allpass'', SetValue Allpass1 FrequencyParam 1000,
         Create Allpass2 BiquadFilter, SetType Allpass2 ''allpass'', SetValue Allpass2 FrequencyParam 1000,
         Create Lfo Oscillator, SetType Lfo ''sine'', SetValue Lfo FrequencyParam 2,
         Create LfoGain GainNode, SetValue LfoGain GainParam 800,
         Connect Lfo LfoGain, ConnectParam LfoGain Allpass1 FrequencyParam,
         ConnectParam LfoGain Allpass2 FrequencyParam,
         Connect Source Allpass1, Connect Allpass1 Allpass2,
         Start Lfo playTime, Stop Lfo (playTime + duration sample)], Allpass2)
     else if f = ''pitchUp'' then ([SetValue Source PlaybackRateParam 1.5], Source)
     else if f = ''pitchDown'' then ([SetValue Source PlaybackRateParam 0.75], Source)
     else if f = ''vibrato'' then
       ([Create Lfo Oscillator, SetType Lfo ''sine'', SetValue Lfo FrequencyParam 5,
         Create LfoGain GainNode, SetValue LfoGain GainParam 15,
         Connect Lfo LfoGain, ConnectParam LfoGain Source DetuneParam,
         Start Lfo playTime, Stop Lfo (playTime + duration sample)], Source)
     else if f = ''autoPan'' then
       ([Create Panner StereoPanner, Create Lfo Oscillator, SetType Lfo ''sine'',
         SetValue Lfo FrequencyParam ((bpm P / 60) * 2),
         ConnectParam Lfo Panner PanParam, Connect Source Panner,
         Start Lfo playTime, Stop Lfo (playTime + duration sample)], Panner)
     else if f = ''gate'' then
       (let stepDuration = 60 / bpm P / 4 in
        ([Create GateGain GainNode, SetValueAtTime GateGain GainParam 0 playTime,
          LinearRampToValueAtTime GateGain GainParam 1 (playTime + stepDuration * 0.05),
          SetValueAtTime GateGain GainParam 1 (playTime + stepDuration * 0.45),
          LinearRampToValueAtTime GateGain GainParam 0 (playTime + stepDuration * 0.5),
          Connect Source GateGain], GateGain))
     else if f = ''bitcrusher'' then
       ([Create Crusher WaveShaper, SetCurve Crusher, Connect Source Crusher], Crusher)
     else if f = ''stereoWiden'' then
       (if createStereoPanner P
        then ([Create Splitter (ChannelSplitter 2), Create Merger (ChannelMerger 2),
               Create Delay (DelayNode 1), SetValue Delay DelayTimeParam 0.01,
               Connect Source Splitter, ConnectOut Splitter Delay 0,
               ConnectOutIn Delay Merger 0 0, ConnectOutIn Splitter Merger 1 1], Merger)
        else ([], Source))
     else ([], Source))"

text \<open>
  The body of \<^verbatim>\<open>if (fx && sampleBuffer)\<close>: the source is created and given its
  buffer (\<^verbatim>\<open>reversedSampleBuffer ?? sampleBuffer\<close> for \<^verbatim>\<open>reverse\<close>), the switch
  runs, and unless the effect is glitch or stutter the current node is connected to
  the limiter and the source is started at \<open>playTime\<close>.
\<close>

definition triggerStep :: "sequencerProps \<Rightarrow> audioBuffer \<Rightarrow> fx \<Rightarrow> real \<Rightarrow> command list" where
  "triggerStep P sample f playTime =
     [Create Source BufferSource,
      SetBuffer Source (if f = ''reverse''
                        then (case reversedSampleBuffer P of Some _ \<Rightarrow> ReversedSampleBuffer
                                                           | None \<Rightarrow> SampleBuffer)
                        else SampleBuffer)]
     @ fst (effectChain P sample f playTime)
     @ (if f \<noteq> ''glitch'' \<and> f \<noteq> ''stutter''
        then [Connect (snd (effectChain P sample f playTime)) Limiter, Start Source playTime]
        else [])"

subsection \<open>The scheduler loop\<close>

text \<open>
  One entry of the log of the audio context per triggered step: its index, its
  \<^verbatim>\<open>playTime\<close> and its calls.
\<close>

record firedStep =
  stepIndex :: nat
  triggerTime :: real
  commands :: "command list"

text \<open>
  The refs and state of the component, and the log of what the audio context was
  asked to do. \<open>timerRef\<close> tells whether a \<^verbatim>\<open>setTimeout\<close> of the scheduler is pending.
\<close>

record schedulerState =
  nextStepTimeRef :: real
  stepRef :: nat
  currentStep :: int
  timerRef :: bool
  audio :: "firedStep list"

text \<open>The step that one pass of the \<^verbatim>\<open>while\<close> loop triggers, if any.\<close>

definition stepCommands :: "sequencerProps \<Rightarrow> schedulerState \<Rightarrow> firedStep list" where
  "stepCommands P s =
     (case (slot (pattern P) (stepRef s), sampleBuffer P) of
        (Some f, Some sample) \<Rightarrow>
          if f \<noteq> [] then [\<lparr>stepIndex = stepRef s, triggerTime = nextStepTimeRef s,
                             commands = triggerStep P sample f (nextStepTimeRef s)\<rparr>]
          else []
      | _ \<Rightarrow> [])"

text \<open>One pass of the \<^verbatim>\<open>while\<close> loop.\<close>

definition schedulerBody :: "sequencerProps \<Rightarrow> schedulerState \<Rightarrow> schedulerState" where
  "schedulerBody P s =
     s\<lparr>audio := audio s @ stepCommands P s,
       nextStepTimeRef := nextStepTimeRef s + 60 / bpm P / 4,
       currentStep := int (stepRef s),
       stepRef := (stepRef s + 1) mod 16\<rparr>"





text \<open>The body of the effect when \<^verbatim>\<open>isPlaying\<close> does not hold.\<close>

definition stopEffect :: "schedulerState \<Rightarrow> schedulerState" where
  "stopEffect s = s\<lparr>timerRef := False, currentStep := - 1\<rparr>"





text \<open>The refs and state of a freshly mounted component.\<close>

definition initialState :: schedulerState where
  "initialState = \<lparr>nextStepTimeRef = 0, stepRef = 0, currentStep = - 1, timerRef = False, audio = []\<rparr>"



section \<open>Requesting a loop from the music model (services/geminiService.ts)\<close>

text \<open>
  \<^verbatim>\<open>generateAudio\<close> returns a promise that the callbacks of the streaming session and
  two timers settle. The model is a state machine over the events that run those
  callbacks; its state holds the local variables of the promise executor and the
  settlement of the promise. A promise settles once: a later \<^verbatim>\<open>resolve\<close> or
  \<^verbatim>\<open>reject\<close> has no effect. The prompt and the tempo are only passed on to the
  service. \<^verbatim>\<open>atob\<close> and \<^verbatim>\<open>btoa\<close>, the platform's base64 transcoders, are
  parameters; a binary string is the list of its character codes.
\<close>

datatype failure = NoAudio | SessionError | SetupError | ConnectError

datatype outcome = Resolved string | Rejected failure

text \<open>
  \<open>session\<close> tells whether the variable \<^verbatim>\<open>session\<close> has been assigned;
  \<open>initialTimeout\<close> and \<open>collectionTimeout\<close> tell whether the timer is pending;
  \<open>closeCalls\<close> counts the calls of \<^verbatim>\<open>session.close()\<close>.
\<close>

record generation =
  audioChunks :: "byte list list"
  totalByteLength :: nat
  sessionClosed :: bool
  hasReceivedAudio :: bool
  session :: bool
  initialTimeout :: bool
  collectionTimeout :: bool
  closeCalls :: nat
  settled :: "outcome option"

definition initialGeneration :: generation where
  "initialGeneration = \<lparr>audioChunks = [], totalByteLength = 0, sessionClosed = False,
     hasReceivedAudio = False, session = False, initialTimeout = False,
     collectionTimeout = False, closeCalls = 0, settled = None\<rparr>"

definition resolve :: "string \<Rightarrow> generation \<Rightarrow> generation" where
  "resolve v g = (if settled g = None then g\<lparr>settled := Some (Resolved v)\<rparr> else g)"

definition reject :: "failure \<Rightarrow> generation \<Rightarrow> generation" where
  "reject e g = (if settled g = None then g\<lparr>settled := Some (Rejected e)\<rparr> else g)"

text \<open>
  \<^verbatim>\<open>new Uint8Array(totalByteLength)\<close> filled by \<^verbatim>\<open>fullAudio.set(chunk, offset)\<close>
  for each chunk in turn.
\<close>

fun setChunks :: "byte list \<Rightarrow> byte list list \<Rightarrow> nat \<Rightarrow> byte list" where
  "setChunks full [] offset = full"
| "setChunks full (chunk # rest) offset =
     setChunks (take offset full @ chunk @ drop (offset + length chunk) full) rest
       (offset + length chunk)"

definition fullAudio :: "generation \<Rightarrow> byte list" where
  "fullAudio g = setChunks (replicate (totalByteLength g) 0) (audioChunks g) 0"

definition cleanupAndResolve :: "(byte list \<Rightarrow> string) \<Rightarrow> generation \<Rightarrow> generation" where
  "cleanupAndResolve btoa g =
     (if sessionClosed g then g
      else
        (let g1 = g\<lparr>sessionClosed := True, collectionTimeout := False, initialTimeout := False,
                     closeCalls := closeCalls g + (if session g then 1 else 0)\<rparr>
         in if audioChunks g1 = [] then reject NoAudio g1
            else resolve (btoa (fullAudio g1)) g1))"

text \<open>
  One pass of the loop over \<^verbatim>\<open>message.serverContent.audioChunks\<close>: a chunk without
  data, or with empty data, is skipped; \<^verbatim>\<open>decodeBase64\<close> is \<^verbatim>\<open>atob\<close> followed by
  the character codes.
\<close>

definition collectChunk :: "(string \<Rightarrow> byte list) \<Rightarrow> generation \<Rightarrow> string option \<Rightarrow> generation" where
  "collectChunk atob g audioChunk =
     (case audioChunk of
        Some d \<Rightarrow>
          if d \<noteq> [] then g\<lparr>audioChunks := audioChunks g @ [atob d],
                              totalByteLength := totalByteLength g + length (atob d)\<rparr>
          else g
      | None \<Rightarrow> g)"

text \<open>
  \<^verbatim>\<open>onmessage\<close>; the argument is \<^verbatim>\<open>message.serverContent?.audioChunks\<close>, \<open>None\<close>
  when it is absent. The first message that has it stops the initial timer and starts
  the collection timer.
\<close>

definition onmessage ::
  "(string \<Rightarrow> byte list) \<Rightarrow> string option list option \<Rightarrow> generation \<Rightarrow> generation" where
  "onmessage atob message g =
     (case message of
        None \<Rightarrow> g
      | Some chunks \<Rightarrow>
          foldl (collectChunk atob)
            (if \<not> hasReceivedAudio g
             then g\<lparr>hasReceivedAudio := True, initialTimeout := False, collectionTimeout := True\<rparr>
             else g)
            chunks)"

definition onerror :: "(byte list \<Rightarrow> string) \<Rightarrow> generation \<Rightarrow> generation" where
  "onerror btoa g = cleanupAndResolve btoa (reject SessionError g)"

definition onclose :: "(byte list \<Rightarrow> string) \<Rightarrow> generation \<Rightarrow> generation" where
  "onclose btoa g = (if \<not> sessionClosed g then cleanupAndResolve btoa g else g)"

text \<open>
  The events: \<^verbatim>\<open>connect\<close> returns the session or throws; the set-up calls that
  follow end (the initial timer is started) or throw; the service sends a message, an
  error or a close; a pending timer fires.
\<close>

datatype sessionEvent =
    Connected | ConnectFailed | SetupDone | SetupFailed
  | Message "string option list option" | SessionErrorEvent | Closed
  | InitialTimeoutFires | CollectionTimeoutFires

fun handle ::
  "(string \<Rightarrow> byte list) \<Rightarrow> (byte list \<Rightarrow> string) \<Rightarrow> generation \<Rightarrow> sessionEvent \<Rightarrow> generation" where
  "handle atob btoa g Connected = g\<lparr>session := True\<rparr>"
| "handle atob btoa g ConnectFailed =
     reject ConnectError (g\<lparr>initialTimeout := False, collectionTimeout := False\<rparr>)"
| "handle atob btoa g SetupDone = g\<lparr>initialTimeout := True\<rparr>"
| "handle atob btoa g SetupFailed = cleanupAndResolve btoa (reject SetupError g)"
| "handle atob btoa g (Message message) = onmessage atob message g"
| "handle atob btoa g SessionErrorEvent = onerror btoa g"
| "handle atob btoa g Closed = onclose btoa g"
| "handle atob btoa g InitialTimeoutFires =
     (if initialTimeout g
      then (if \<not> hasReceivedAudio g then cleanupAndResolve btoa (g\<lparr>initialTimeout := False\<rparr>)
            else g\<lparr>initialTimeout := False\<rparr>)
      else g)"
| "handle atob btoa g CollectionTimeoutFires =
     (if collectionTimeout g then cleanupAndResolve btoa (g\<lparr>collectionTimeout := False\<rparr>) else g)"

text \<open>The state of a request after a sequence of events; \<open>settled\<close> is its result so far.\<close>

definition generateAudio ::
  "(string \<Rightarrow> byte list) \<Rightarrow> (byte list \<Rightarrow> string) \<Rightarrow> sessionEvent list \<Rightarrow> generation" where
  "generateAudio atob btoa events = foldl (handle atob btoa) initialGeneration events"

text \<open>
  What holds of every state of a request: closing the session has settled the promise,
  the byte count is the total length of the chunks, and no chunk is held before a
  message with audio has arrived.
\<close>

definition sound :: "generation \<Rightarrow> bool" where
  "sound g = ((sessionClosed g \<longrightarrow> settled g \<noteq> None)
            \<and> totalByteLength g = length (concat (audioChunks g))
            \<and> (\<not> hasReceivedAudio g \<longrightarrow> audioChunks g = []))"

section \<open>Example inputs\<close>

text \<open>A two-frame stereo sample and its reversed copy, as \<^verbatim>\<open>handleLoadToSequencer\<close> makes them.\<close>

definition demoSample :: audioBuffer where
  "demoSample = \<lparr>sampleRate = 48000, channelData = [[0, 1 / 2], [0, - (1 / 2)]]\<rparr>"

definition demoReversed :: audioBuffer where
  "demoReversed = \<lparr>sampleRate = 48000, channelData = [[1 / 2, 0], [- (1 / 2), 0]]\<rparr>"

text \<open>Props of a sequencer at 120 bpm with both samples loaded and every step set to \<^verbatim>\<open>normal\<close>.\<close>

definition demoProps :: sequencerProps where
  "demoProps = \<lparr>bpm = 120, sampleBuffer = Some demoSample,
      reversedSampleBuffer = Some demoReversed, audioContext = True,
      pattern = replicate 16 (Some ''normal''),
      limiterRef = True, impulseResponseRef = True, createStereoPanner = True\<rparr>"

text \<open>
  A plain transcoding that stands in for base64 in the examples: a string and the list
  of its character codes.
\<close>

definition charCodes :: "string \<Rightarrow> byte list" where
  "charCodes str = map (\<lambda>c. of_nat (of_char c)) str"

definition fromCharCodes :: "byte list \<Rightarrow> string" where
  "fromCharCodes bytes = map (\<lambda>b. char_of (unat b)) bytes"



section \<open>Toggling a step\<close>

lemma emptyPattern_slots:
  "emptyPattern = [None, None, None, None, None, None, None, None,
                   None, None, None, None, None, None, None, None]"
  by (simp add: emptyPattern_def numeral_eq_Suc)

lemma steps16: "[0..<16] = [0, 1, 2, 3, 4, 5, 6, 7, 8, 9, 10, 11, 12, 13, 14, 15 :: nat]"
  by (simp add: upt_rec)


lemma length_assignSlot:
  "index < length p \<Longrightarrow> length (assignSlot p index v) = length p"
  by (simp add: assignSlot_def)

lemma nth_assignSlot:
  "index < length p \<Longrightarrow> j < length p \<Longrightarrow>
   assignSlot p index v ! j = (if j = index then v else p ! j)"
  by (simp add: assignSlot_def nth_list_update)

lemma toggle_slot:
  "index < length p \<Longrightarrow>
   handleToggleStep p f index ! index = (if p ! index = Some f then None else Some f)"
  by (simp add: handleToggleStep_def slotIs_def nth_assignSlot)

lemma length_toggle:
  "index < length p \<Longrightarrow> length (handleToggleStep p f index) = length p"
  by (simp add: handleToggleStep_def length_assignSlot)

text \<open>
  C10. For a pattern of 16 slots, an index in 0..15 and any selected effect, toggling
  returns a pattern of 16 slots that agrees with the input at every index other than
  the toggled one, and the toggled slot itself has changed.
\<close>

theorem toggle_frame:
  assumes "length p = 16" and "i < 16"
  shows "length (handleToggleStep p f i) = 16
       \<and> (\<forall>j<16. j \<noteq> i \<longrightarrow> handleToggleStep p f i ! j = p ! j)
       \<and> handleToggleStep p f i ! i \<noteq> p ! i"
proof -
  have i: "i < length p" using assms by simp
  have len: "length (handleToggleStep p f i) = 16"
    using length_toggle [OF i] assms by simp
  have others: "\<forall>j<16. j \<noteq> i \<longrightarrow> handleToggleStep p f i ! j = p ! j"
    using assms by (simp add: handleToggleStep_def nth_assignSlot)
  have changed: "handleToggleStep p f i ! i \<noteq> p ! i"
    using toggle_slot [OF i, of f] by (cases "p ! i = Some f") auto
  from len others changed show ?thesis by blast
qed

theorem toggle_frame_witness:
  "length (handleToggleStep emptyPattern ''delay'' 3) = 16
   \<and> handleToggleStep emptyPattern ''delay'' 3 ! 2 = emptyPattern ! 2
   \<and> handleToggleStep emptyPattern ''delay'' 3 ! 3 \<noteq> emptyPattern ! 3"
proof -
  have l: "length emptyPattern = 16" by (simp add: emptyPattern_def)
  have i: "(3::nat) < 16" by simp
  show ?thesis using toggle_frame [OF l i, of "''delay''"] by simp
qed

text \<open>
  C7, as stated: toggling the same index twice with the same effect restores the slot,
  whatever it held. This fails when the slot holds a different effect: the first toggle
  overwrites it with the selected effect and the second clears it.
\<close>

theorem toggle_twice_counterexample:
  "handleToggleStep (handleToggleStep (emptyPattern[0 := Some ''reverb'']) ''normal'' 0) ''normal'' 0 ! 0
     \<noteq> (emptyPattern[0 := Some ''reverb'']) ! 0"
  by (simp add: handleToggleStep_def slotIs_def assignSlot_def emptyPattern_def)

text \<open>
  C7, amended. For a pattern of 16 slots and an index in 0..15, toggling twice with the
  same effect restores slot \<open>i\<close> exactly when the slot was empty or already held that
  effect; a slot holding another effect ends up empty. Every other slot is restored in
  all cases, so under the same condition the whole pattern is restored.
\<close>

theorem toggle_twice:
  assumes "length p = 16" and "i < 16"
  shows "handleToggleStep (handleToggleStep p f i) f i ! i
           = (if p ! i = None \<or> p ! i = Some f then p ! i else None)
       \<and> (p ! i = None \<or> p ! i = Some f \<longrightarrow>
            handleToggleStep (handleToggleStep p f i) f i = p)"
proof -
  let ?q = "handleToggleStep p f i"
  have i: "i < length p" using assms by simp
  have iq: "i < length ?q" using length_toggle [OF i] i by simp
  have slot: "handleToggleStep ?q f i ! i
                = (if p ! i = None \<or> p ! i = Some f then p ! i else None)"
    using toggle_slot [OF iq, of f] toggle_slot [OF i, of f] by auto
  have whole: "handleToggleStep ?q f i = p" if ok: "p ! i = None \<or> p ! i = Some f"
  proof (rule nth_equalityI)
    show "length (handleToggleStep ?q f i) = length p"
      using length_toggle [OF iq] length_toggle [OF i] by simp
  next
    fix j assume "j < length (handleToggleStep ?q f i)"
    then have j: "j < length p" using length_toggle [OF iq] length_toggle [OF i] by simp
    show "handleToggleStep ?q f i ! j = p ! j"
    proof (cases "j = i")
      case True
      then show ?thesis using slot ok by auto
    next
      case False
      have "handleToggleStep ?q f i ! j = ?q ! j"
        using False j iq length_toggle [OF i]
        by (simp add: handleToggleStep_def [of ?q] nth_assignSlot)
      also have "\<dots> = p ! j"
        using False j i by (simp add: handleToggleStep_def [of p] nth_assignSlot)
      finally show ?thesis .
    qed
  qed
  from slot whole show ?thesis by blast
qed

theorem toggle_twice_witness:
  "handleToggleStep (handleToggleStep emptyPattern ''gate'' 5) ''gate'' 5 = emptyPattern"
proof -
  have l: "length emptyPattern = 16" by (simp add: emptyPattern_def)
  have i: "(5::nat) < 16" by simp
  have e: "emptyPattern ! 5 = None" by (simp add: emptyPattern_def)
  show ?thesis using toggle_twice [OF l i, of "''gate''"] e by simp
qed

section \<open>WAV round trip\<close>

lemma cat16: "word_cat (ucast (drop_bit 8 w) :: 8 word) (ucast w :: 8 word) = (w :: 16 word)"
  by (rule bit_word_eqI) (auto simp: bit_simps)

lemma length_wavHeader: "length (wavHeader b) = 44"
  by (simp add: wavHeader_def writeString_def setUint32_def setUint16_def Let_def)

lemma drop_header: "drop 44 (exportToWav b) = pcmData b"
  by (simp add: exportToWav_def length_wavHeader)

lemma setInt16_encode:
  "offset < length c \<Longrightarrow>
   setInt16 (scaleSample (clampSample (sampleAt c offset)))
     = [ucast (encodeSample (c ! offset)), ucast (drop_bit 8 (encodeSample (c ! offset)))]"
  by (simp add: setInt16_def sampleAt_def encodeSample_def Let_def)

lemma sint16: "- 32768 \<le> k \<Longrightarrow> k \<le> 32767 \<Longrightarrow> sint (word_of_int k :: 16 word) = k"
  by (simp add: sint_sbintrunc' signed_take_bit_int_eq_self)

lemma sint_encode_neg:
  assumes "-1 \<le> x" "x < 0"
  shows "sint (encodeSample x) = \<lceil>x * 32768\<rceil>"
proof -
  have lo: "- 32768 \<le> \<lceil>x * 32768\<rceil>" using assms by (simp add: le_ceiling_iff)
  have hi: "\<lceil>x * 32768\<rceil> \<le> 0" using assms by (simp add: ceiling_le_iff)
  have "encodeSample x = word_of_int \<lceil>x * 32768\<rceil>"
    using assms by (simp add: encodeSample_def toInt16_def scaleSample_def clampSample_def toInteger_def max_def min_def)
  then show ?thesis using lo hi by (simp add: sint16)
qed

lemma sint_encode_nonneg:
  assumes "0 \<le> x" "x \<le> 1"
  shows "sint (encodeSample x) = \<lfloor>x * 32767\<rfloor>"
proof -
  have lo: "0 \<le> \<lfloor>x * 32767\<rfloor>" using assms by simp
  have hi: "\<lfloor>x * 32767\<rfloor> \<le> 32767" using assms by (simp add: floor_le_iff)
  have "encodeSample x = word_of_int \<lfloor>x * 32767\<rfloor>"
    using assms by (simp add: encodeSample_def toInt16_def scaleSample_def clampSample_def toInteger_def max_def min_def)
  then show ?thesis using lo hi by (simp add: sint16)
qed

lemma roundtrip_neg:
  assumes "-1 \<le> x" "x < 0"
  shows "0 \<le> decodeSample (encodeSample x) - x" "decodeSample (encodeSample x) - x < 1 / 32768"
proof -
  have a: "x * 32768 \<le> real_of_int \<lceil>x * 32768\<rceil>" by (rule le_of_int_ceiling)
  have b: "real_of_int \<lceil>x * 32768\<rceil> < x * 32768 + 1" using ceiling_correct [of "x * 32768"] by linarith
  show "0 \<le> decodeSample (encodeSample x) - x"
    using a by (simp add: decodeSample_def sint_encode_neg [OF assms] field_simps)
  show "decodeSample (encodeSample x) - x < 1 / 32768"
    using b by (simp add: decodeSample_def sint_encode_neg [OF assms] field_simps)
qed

lemma roundtrip_nonneg:
  assumes "0 \<le> x" "x \<le> 1"
  shows "x / 32768 \<le> x - decodeSample (encodeSample x)"
        "x - decodeSample (encodeSample x) < (1 + x) / 32768"
proof -
  have a: "real_of_int \<lfloor>x * 32767\<rfloor> \<le> x * 32767" by (rule of_int_floor_le)
  have b: "x * 32767 < real_of_int \<lfloor>x * 32767\<rfloor> + 1" by linarith
  show "x / 32768 \<le> x - decodeSample (encodeSample x)"
    using a by (simp add: decodeSample_def sint_encode_nonneg [OF assms] field_simps)
  show "x - decodeSample (encodeSample x) < (1 + x) / 32768"
    using b by (simp add: decodeSample_def sint_encode_nonneg [OF assms] field_simps)
qed

lemma int16Array_frames:
  "int16Array (concat (map (\<lambda>i. [ucast (f i), ucast (drop_bit 8 (f i)), ucast (g i), ucast (drop_bit 8 (g i))]) is))
     = concat (map (\<lambda>i. [f i, g i]) is)"
  by (induction "is") (simp_all add: cat16)

lemma length_interleaved: "length (concat (map (\<lambda>i. [f i, g i]) [0..<n])) = 2 * n"
  by (induction n) simp_all

lemma nth_interleaved:
  "i < n \<Longrightarrow> c < 2 \<Longrightarrow>
   concat (map (\<lambda>i. [f i, g i]) [0..<n]) ! (i * 2 + c) = (if c = 0 then f i else g i)"
proof (induction n)
  case 0
  then show ?case by simp
next
  case (Suc n)
  show ?case
  proof (cases "i < n")
    case True
    then have "i * 2 + c < 2 * n" using Suc.prems by simp
    then show ?thesis using Suc True by (simp add: nth_append length_interleaved)
  next
    case False
    then have "i = n" using Suc.prems by simp
    then show ?thesis using Suc.prems
      by (cases "c = 0") (auto simp: nth_append length_interleaved)
  qed
qed


lemma pcmData_stereo:
  assumes "channelData b = [l, r]" "length l = n" "length r = n"
  shows "int16Array (pcmData b) = concat (map (\<lambda>i. [encodeSample (l ! i), encodeSample (r ! i)]) [0..<n])"
proof -
  have "pcmData b = concat (map (\<lambda>i. [ucast (encodeSample (l ! i)), ucast (drop_bit 8 (encodeSample (l ! i))),
                                       ucast (encodeSample (r ! i)), ucast (drop_bit 8 (encodeSample (r ! i)))]) [0..<n])"
  proof -
    have "map (frameBytes [l, r]) [0..<n] = map (\<lambda>i. [ucast (encodeSample (l ! i)), ucast (drop_bit 8 (encodeSample (l ! i))),
                                       ucast (encodeSample (r ! i)), ucast (drop_bit 8 (encodeSample (r ! i)))]) [0..<n]"
      by (rule map_cong) (simp_all add: frameBytes_def setInt16_encode assms)
    then show ?thesis by (simp only: pcmData_def bufLength_def assms list.case)
  qed
  then show ?thesis by (simp only: int16Array_frames)
qed

lemma decode_stereo:
  assumes "channelData b = [l, r]" "length l = n" "length r = n"
  shows "channelData (decodePCMAudioData (drop 44 (exportToWav b)))
           = [map (\<lambda>x. decodeSample (encodeSample x)) l, map (\<lambda>x. decodeSample (encodeSample x)) r]"
proof -
  let ?xs = "concat (map (\<lambda>i. [encodeSample (l ! i), encodeSample (r ! i)]) [0..<n])"
  have len: "length ?xs div 2 = n" by (simp add: length_interleaved)
  have l: "map (\<lambda>i. real_of_int (sint (?xs ! (i * 2 + 0))) / 32768) [0..<n] = map (\<lambda>x. decodeSample (encodeSample x)) l"
  proof (rule nth_equalityI)
    fix i assume "i < length (map (\<lambda>i. real_of_int (sint (?xs ! (i * 2 + 0))) / 32768) [0..<n])"
    then have i: "i < n" by simp
    have "?xs ! (i * 2 + 0) = encodeSample (l ! i)"
      using nth_interleaved [OF i, of 0] by simp
    then show "map (\<lambda>i. real_of_int (sint (?xs ! (i * 2 + 0))) / 32768) [0..<n] ! i = map (\<lambda>x. decodeSample (encodeSample x)) l ! i"
      using i assms(2) by (simp add: decodeSample_def)
  qed (simp add: assms(2))
  have r: "map (\<lambda>i. real_of_int (sint (?xs ! (i * 2 + 1))) / 32768) [0..<n] = map (\<lambda>x. decodeSample (encodeSample x)) r"
  proof (rule nth_equalityI)
    fix i assume "i < length (map (\<lambda>i. real_of_int (sint (?xs ! (i * 2 + 1))) / 32768) [0..<n])"
    then have i: "i < n" by simp
    have "?xs ! (i * 2 + 1) = encodeSample (r ! i)"
      using nth_interleaved [OF i, of 1] by simp
    then show "map (\<lambda>i. real_of_int (sint (?xs ! (i * 2 + 1))) / 32768) [0..<n] ! i = map (\<lambda>x. decodeSample (encodeSample x)) r ! i"
      using i assms(3) by (simp add: decodeSample_def)
  qed (simp add: assms(3))
  have two: "[0..<2] = [0, 1::nat]" by (simp add: upt_rec)
  show ?thesis
    using l r by (simp add: drop_header decodePCMAudioData_def pcmData_stereo [OF assms] len two Let_def)
qed

lemmas wav_defs = exportToWav_def wavHeader_def writeString_def setUint32_def setUint16_def Let_def pcmData_def bufLength_def frameBytes_def setInt16_def toInt16_def scaleSample_def clampSample_def sampleAt_def toInteger_def numberOfChannels_def decodePCMAudioData_def

text \<open>
  C8, as stated: every sample in \<open>[-1, 1]\<close> comes back within \<open>1/32768\<close>. This fails
  for a positive sample: \<open>65535/65536\<close> is scaled by \<open>0x7FFF\<close> to \<open>32766.5...\<close>, stored as
  \<open>32766\<close> and decoded as \<open>32766/32768\<close>, which is \<open>1.5/32768\<close> below the original.
\<close>

theorem wav_roundtrip_counterexample:
  "\<not> \<bar>channelData \<lparr>sampleRate = 48000, channelData = [[65535 / 65536], [0]]\<rparr> ! 0 ! 0
      - channelData (decodePCMAudioData (drop 44 (exportToWav
          \<lparr>sampleRate = 48000, channelData = [[65535 / 65536], [0]]\<rparr>))) ! 0 ! 0\<bar> \<le> 1 / 32768"
  by (simp add: wav_defs word_cat_eq)

text \<open>
  C8, amended. For a stereo buffer whose samples lie in \<open>[-1, 1]\<close>, decoding the PCM data
  of \<open>exportToWav\<close> (the bytes after the 44-byte header) gives a buffer of two channels
  with the same number of frames, in which every sample is less than \<open>2/32768\<close> away from
  the original, and less than \<open>1/32768\<close> away when the original is negative. (Non-negative
  samples are scaled by \<open>0x7FFF\<close> but decoded by \<open>32768\<close>, which costs up to one more
  quantisation step.)
\<close>

theorem wav_roundtrip:
  assumes "channelData b = [l, r]" and "length l = n" and "length r = n"
      and "\<forall>c \<in> set (channelData b). \<forall>x \<in> set c. - 1 \<le> x \<and> x \<le> 1"
  shows "numberOfChannels (decodePCMAudioData (drop 44 (exportToWav b))) = 2
       \<and> bufLength (decodePCMAudioData (drop 44 (exportToWav b))) = n
       \<and> (\<forall>ch<2. \<forall>i<n.
            \<bar>channelData b ! ch ! i - channelData (decodePCMAudioData (drop 44 (exportToWav b))) ! ch ! i\<bar> < 2 / 32768
          \<and> (channelData b ! ch ! i < 0 \<longrightarrow>
            \<bar>channelData b ! ch ! i - channelData (decodePCMAudioData (drop 44 (exportToWav b))) ! ch ! i\<bar> < 1 / 32768))"
proof -
  let ?d = "decodePCMAudioData (drop 44 (exportToWav b))"
  let ?rt = "\<lambda>x. decodeSample (encodeSample x)"
  have d: "channelData ?d = [map ?rt l, map ?rt r]"
    by (rule decode_stereo [OF assms(1-3)])
  have sample: "\<bar>x - ?rt x\<bar> < 2 / 32768 \<and> (x < 0 \<longrightarrow> \<bar>x - ?rt x\<bar> < 1 / 32768)"
    if "- 1 \<le> x" "x \<le> 1" for x
  proof (cases "x < 0")
    case True
    then show ?thesis using roundtrip_neg [OF that(1) True] by simp
  next
    case False
    then have x: "0 \<le> x" by simp
    show ?thesis using roundtrip_nonneg [OF x that(2)] that x by simp
  qed
  have chan: "\<forall>ch<2. \<forall>i<n. \<bar>channelData b ! ch ! i - channelData ?d ! ch ! i\<bar> < 2 / 32768
          \<and> (channelData b ! ch ! i < 0 \<longrightarrow> \<bar>channelData b ! ch ! i - channelData ?d ! ch ! i\<bar> < 1 / 32768)"
  proof (intro allI impI)
    fix ch i :: nat assume ch: "ch < 2" and i: "i < n"
    have "ch = 0 \<or> ch = 1" using ch by auto
    then show "\<bar>channelData b ! ch ! i - channelData ?d ! ch ! i\<bar> < 2 / 32768
          \<and> (channelData b ! ch ! i < 0 \<longrightarrow> \<bar>channelData b ! ch ! i - channelData ?d ! ch ! i\<bar> < 1 / 32768)"
    proof
      assume "ch = 0"
      have "l ! i \<in> set l" using i assms(2) by simp
      then have "- 1 \<le> l ! i \<and> l ! i \<le> 1" using assms(1,4) by simp
      then show ?thesis using sample [of "l ! i"] i assms(1,2) d \<open>ch = 0\<close> by simp
    next
      assume "ch = 1"
      have "r ! i \<in> set r" using i assms(3) by simp
      then have "- 1 \<le> r ! i \<and> r ! i \<le> 1" using assms(1,4) by simp
      then show ?thesis using sample [of "r ! i"] i assms(1,3) d \<open>ch = 1\<close> by simp
    qed
  qed
  have "numberOfChannels ?d = 2" using d by (simp add: numberOfChannels_def)
  moreover have "bufLength ?d = n" using d assms(2) by (simp add: bufLength_def)
  ultimately show ?thesis using chan by blast
qed

theorem wav_roundtrip_witness:
  "\<bar>- (1 / 3) - channelData (decodePCMAudioData (drop 44 (exportToWav
          \<lparr>sampleRate = 48000, channelData = [[1 / 2], [- (1 / 3)]]\<rparr>))) ! 1 ! 0\<bar> < 1 / 32768"
proof -
  let ?b = "\<lparr>sampleRate = 48000, channelData = [[1 / 2], [- (1 / 3)]]\<rparr>"
  have a: "channelData ?b = [[1 / 2], [- (1 / 3)]]" by simp
  have r: "\<forall>c \<in> set (channelData ?b). \<forall>x \<in> set c. - 1 \<le> x \<and> x \<le> 1" by simp
  have "length [1 / 2 :: real] = 1" "length [- (1 / 3) :: real] = 1" by simp_all
  from wav_roundtrip [OF a this r, THEN conjunct2, THEN conjunct2, rule_format, of 1 0]
  show ?thesis by simp
qed

section \<open>Randomising\<close>
















section \<open>Export\<close>

text \<open>
  C5, as stated: the offline context lasts \<open>16 * (60/bpm/4)\<close> seconds. The context is
  given a whole number of frames, \<^verbatim>\<open>Math.floor(totalDuration * sampleRate)\<close>; at
  70 bpm and 48000 Hz that is 164571 frames, a little less than the \<open>24/7\<close> seconds of
  the sixteen steps.
\<close>

theorem export_duration_counterexample:
  "map_option totalFrames (exportSequence (Some demoSample) (Some demoReversed) (Some 48000) emptyPattern 70)
      = Some 164571
   \<and> map_option contextDuration (exportSequence (Some demoSample) (Some demoReversed) (Some 48000) emptyPattern 70)
      \<noteq> Some (16 * (60 / 70 / 4))"
  by (simp add: exportSequence_def contextDuration_def Let_def)

text \<open>
  C5, amended. With a sample loaded, an audio context of positive sample rate and a
  positive tempo, export builds one offline context with the sample's channel count and
  \<open>floor (16 * (60/bpm/4) * sampleRate)\<close> frames, so that it lasts at most
  \<open>16 * (60/bpm/4)\<close> seconds and less than one frame short of that. It makes one pass
  over the steps 0..15: each non-empty step \<open>i\<close> gives one source, started at
  \<open>i * (60/bpm/4)\<close> and connected to the destination with no effect processing, whose
  buffer is the reversed sample when the step's effect is \<^verbatim>\<open>reverse\<close> and a reversed
  sample is loaded, and the forward sample otherwise; an empty step gives no source.
\<close>

theorem export_pass:
  assumes "0 < tempo" and "0 < rate"
  shows "\<exists>c. exportSequence (Some sample) reversed (Some rate) p tempo = Some c
       \<and> channels c = numberOfChannels sample
       \<and> contextRate c = rate
       \<and> totalFrames c = \<lfloor>16 * (60 / tempo / 4) * real rate\<rfloor>
       \<and> contextDuration c \<le> 16 * (60 / tempo / 4)
       \<and> 16 * (60 / tempo / 4) - 1 / real rate < contextDuration c
       \<and> sources c = concat (map (\<lambda>i.
            if truthy (slot p i)
            then [\<lparr>buffer = (if slot p i = Some ''reverse''
                             then (case reversed of Some r \<Rightarrow> r | None \<Rightarrow> sample)
                             else sample),
                   startTime = real i * (60 / tempo / 4)\<rparr>]
            else []) [0..<16])"
proof -
  let ?D = "16 * (60 / tempo / 4)"
  let ?c = "\<lparr>channels = numberOfChannels sample,
             totalFrames = \<lfloor>?D * real rate\<rfloor>,
             contextRate = rate,
             sources = concat (map (exportStep sample reversed p (60 / tempo / 4)) [0..<16])\<rparr>"
  have e: "exportSequence (Some sample) reversed (Some rate) p tempo = Some ?c"
    by (simp add: exportSequence_def Let_def mult.commute)
  have r: "0 < real rate" using assms by simp
  have up: "contextDuration ?c \<le> ?D"
    using r by (simp add: contextDuration_def pos_divide_le_eq)
  have "?D * real rate - 1 < real_of_int \<lfloor>?D * real rate\<rfloor>" by linarith
  then have lo: "?D - 1 / real rate < contextDuration ?c"
    using r by (simp add: contextDuration_def pos_less_divide_eq diff_divide_distrib left_diff_distrib)
  have st: "exportStep sample reversed p (60 / tempo / 4) = (\<lambda>i.
            if truthy (slot p i)
            then [\<lparr>buffer = (if slot p i = Some ''reverse''
                             then (case reversed of Some r \<Rightarrow> r | None \<Rightarrow> sample)
                             else sample),
                   startTime = real i * (60 / tempo / 4)\<rparr>]
            else [])"
    by (rule ext) (simp add: exportStep_def split: option.splits)
  show ?thesis using e up lo st by simp
qed

theorem export_pass_witness:
  "\<exists>c. exportSequence (Some demoSample) (Some demoReversed) (Some 48000)
          (emptyPattern[0 := Some ''normal'', 8 := Some ''reverse'']) 120 = Some c
       \<and> totalFrames c = 96000 \<and> contextDuration c = 2
       \<and> sources c = [\<lparr>buffer = demoSample, startTime = 0\<rparr>, \<lparr>buffer = demoReversed, startTime = 1\<rparr>]"
proof -
  have t: "(0::real) < 120" and r: "(0::nat) < 48000" by simp_all
  from export_pass [OF t r, of demoSample "Some demoReversed"
      "emptyPattern[0 := Some ''normal'', 8 := Some ''reverse'']"]
  show ?thesis
    by (auto simp add: contextDuration_def slot_def emptyPattern_slots steps16)
qed

section \<open>Effects of a triggered step\<close>

lemma steps3: "[0..<3] = [0, 1, 2 :: nat]"
  by (simp add: upt_rec)

lemma steps4: "[0..<4] = [0, 1, 2, 3 :: nat]"
  by (simp add: upt_rec)

lemmas trigger_defs = triggerStep_def effectChain_def glitchRepeat_def stutterRepeat_def
  starts_def connections_def gainSettings_def List.map_filter_simps steps3 steps4






text \<open>
  C2, as stated: for \<^verbatim>\<open>reverse\<close> the step is skipped also when only the reversed
  sample buffer is absent. With the forward buffer present the step is triggered: a
  source is created, given the forward buffer, connected to the limiter and started.
\<close>

theorem missing_reversed_counterexample:
  "stepCommands (demoProps\<lparr>reversedSampleBuffer := None, pattern := [Some ''reverse'']\<rparr>) initialState
     = [\<lparr>stepIndex = 0, triggerTime = 0,
         commands = [Create Source BufferSource, SetBuffer Source SampleBuffer,
                     Connect Source Limiter, Start Source 0]\<rparr>]"
  by (simp add: stepCommands_def slot_def demoProps_def initialState_def trigger_defs)

text \<open>
  C2, amended. When the sample buffer is absent, a pass of the scheduler loop triggers
  nothing, whatever the step holds: no call reaches the audio context and the log is
  unchanged (the model has no failing branch there; the pass only advances the step
  counter and the next step time). When only the reversed buffer is absent, a
  \<^verbatim>\<open>reverse\<close> step is not skipped: it plays the forward buffer unprocessed.
\<close>

theorem missing_sample:
  "(sampleBuffer P = None \<longrightarrow>
       stepCommands P s = [] \<and> audio (schedulerBody P s) = audio s)
   \<and> (sampleBuffer P \<noteq> None \<and> reversedSampleBuffer P = None
        \<and> slot (pattern P) (stepRef s) = Some ''reverse'' \<longrightarrow>
       stepCommands P s = [\<lparr>stepIndex = stepRef s, triggerTime = nextStepTimeRef s,
          commands = [Create Source BufferSource, SetBuffer Source SampleBuffer,
                      Connect Source Limiter, Start Source (nextStepTimeRef s)]\<rparr>])"
  by (auto simp add: stepCommands_def schedulerBody_def trigger_defs split: option.splits)

theorem missing_sample_witness:
  "stepCommands (demoProps\<lparr>sampleBuffer := None, reversedSampleBuffer := None\<rparr>) initialState = []
   \<and> audio (schedulerBody (demoProps\<lparr>sampleBuffer := None, reversedSampleBuffer := None\<rparr>) initialState) = []
   \<and> stepCommands (demoProps\<lparr>reversedSampleBuffer := None, pattern := [Some ''reverse'']\<rparr>) initialState \<noteq> []"
  using missing_sample [of "demoProps\<lparr>sampleBuffer := None, reversedSampleBuffer := None\<rparr>" initialState]
        missing_sample [of "demoProps\<lparr>reversedSampleBuffer := None, pattern := [Some ''reverse'']\<rparr>" initialState]
  by (simp add: demoProps_def initialState_def slot_def)

section \<open>The scheduler\<close>















section \<open>The generation request\<close>

lemma setChunks_fits:
  "length full = offset + length (concat cs) \<Longrightarrow>
   setChunks full cs offset = take offset full @ concat cs"
proof (induction cs arbitrary: full offset)
  case Nil
  then show ?case by simp
next
  case (Cons c cs)
  let ?full = "take offset full @ c @ drop (offset + length c) full"
  have len: "length ?full = (offset + length c) + length (concat cs)"
    using Cons.prems by simp
  have "setChunks ?full cs (offset + length c) = take (offset + length c) ?full @ concat cs"
    by (rule Cons.IH [OF len])
  moreover have "take (offset + length c) ?full = take offset full @ c"
    using Cons.prems by simp
  ultimately show ?case by simp
qed

lemma fullAudio_concat:
  "totalByteLength g = length (concat (audioChunks g)) \<Longrightarrow> fullAudio g = concat (audioChunks g)"
  using setChunks_fits [of "replicate (totalByteLength g) 0" 0 "audioChunks g"]
  by (simp add: fullAudio_def)

lemma collect_fold:
  "settled (foldl (collectChunk atob) g cs) = settled g
   \<and> sessionClosed (foldl (collectChunk atob) g cs) = sessionClosed g
   \<and> hasReceivedAudio (foldl (collectChunk atob) g cs) = hasReceivedAudio g
   \<and> (totalByteLength g = length (concat (audioChunks g)) \<longrightarrow>
        totalByteLength (foldl (collectChunk atob) g cs)
          = length (concat (audioChunks (foldl (collectChunk atob) g cs))))"
  by (induction cs arbitrary: g) (auto simp: collectChunk_def split: option.splits)

lemma sound_cleanup: "sound g \<Longrightarrow> sound (cleanupAndResolve btoa g)"
  by (auto simp: sound_def cleanupAndResolve_def reject_def resolve_def Let_def)

lemma sound_reject: "sound g \<Longrightarrow> sound (reject e g)"
  by (auto simp: sound_def reject_def)

lemma sound_onmessage: "sound g \<Longrightarrow> sound (onmessage atob m g)"
proof (cases m)
  case None
  then show "sound g \<Longrightarrow> ?thesis" by (simp add: onmessage_def)
next
  case (Some cs)
  assume g: "sound g"
  let ?g1 = "if \<not> hasReceivedAudio g
             then g\<lparr>hasReceivedAudio := True, initialTimeout := False, collectionTimeout := True\<rparr>
             else g"
  have h: "hasReceivedAudio ?g1" by simp
  have s: "settled ?g1 = settled g" "sessionClosed ?g1 = sessionClosed g"
    "totalByteLength ?g1 = length (concat (audioChunks ?g1))"
    using g by (auto simp: sound_def)
  show ?thesis
    using collect_fold [of atob ?g1 cs] h s g Some
    unfolding onmessage_def sound_def by (simp del: foldl_Cons split del: if_split)
qed

lemma sound_handle: "sound g \<Longrightarrow> sound (handle atob btoa g e)"
proof (cases e)
  case (Message m)
  then show "sound g \<Longrightarrow> ?thesis" by (simp add: sound_onmessage)
next
  case InitialTimeoutFires
  assume g: "sound g"
  then have "sound (g\<lparr>initialTimeout := False\<rparr>)" by (simp add: sound_def)
  then show ?thesis using g InitialTimeoutFires by (simp add: sound_cleanup)
next
  case CollectionTimeoutFires
  assume g: "sound g"
  then have "sound (g\<lparr>collectionTimeout := False\<rparr>)" by (simp add: sound_def)
  then show ?thesis using g CollectionTimeoutFires by (simp add: sound_cleanup)
qed (auto simp: sound_def onerror_def onclose_def intro: sound_cleanup sound_reject
      simp: cleanupAndResolve_def reject_def resolve_def Let_def)

lemma sound_generateAudio: "sound (generateAudio atob btoa es)"
proof (induction es rule: rev_induct)
  case Nil
  then show ?case by (simp add: generateAudio_def sound_def initialGeneration_def)
next
  case (snoc e es)
  then show ?case by (simp add: generateAudio_def sound_handle)
qed


lemma settled_cleanup:
  "settled g \<noteq> None \<Longrightarrow> settled (cleanupAndResolve btoa g) = settled g"
  by (auto simp: cleanupAndResolve_def reject_def resolve_def Let_def)

lemma settled_onmessage: "settled (onmessage atob m g) = settled g"
  using collect_fold [of atob _ "the m"] by (cases m) (auto simp: onmessage_def)

lemma settled_handle:
  "settled g \<noteq> None \<Longrightarrow> settled (handle atob btoa g e) = settled g"
  by (cases e)
     (auto simp: settled_onmessage settled_cleanup onerror_def onclose_def reject_def)

lemma cleanup_live:
  assumes "sound g" and "settled g = None"
  shows "settled (cleanupAndResolve btoa g)
           = Some (if audioChunks g = [] then Rejected NoAudio
                   else Resolved (btoa (concat (audioChunks g))))"
proof -
  have open_: "\<not> sessionClosed g" using assms by (auto simp: sound_def)
  let ?g1 = "g\<lparr>sessionClosed := True, collectionTimeout := False, initialTimeout := False,
                closeCalls := closeCalls g + (if session g then 1 else 0)\<rparr>"
  have "totalByteLength ?g1 = length (concat (audioChunks ?g1))" using assms by (simp add: sound_def)
  then have "fullAudio ?g1 = concat (audioChunks g)" using fullAudio_concat [of ?g1] by simp
  then show ?thesis using open_ assms(2)
    by (simp add: cleanupAndResolve_def reject_def resolve_def Let_def)
qed

lemma generateAudio_snoc:
  "generateAudio atob btoa (es @ [e]) = handle atob btoa (generateAudio atob btoa es) e"
  by (simp add: generateAudio_def)

lemmas generation_defs = generateAudio_def initialGeneration_def onmessage_def collectChunk_def
  onerror_def onclose_def cleanupAndResolve_def reject_def resolve_def fullAudio_def Let_def
  charCodes_def fromCharCodes_def

text \<open>
  C9, as stated: with at least one chunk collected before the session errors, the
  request resolves. After one chunk has been collected, a session error rejects the
  request: \<^verbatim>\<open>onerror\<close> calls \<^verbatim>\<open>reject\<close> before \<^verbatim>\<open>cleanupAndResolve\<close>.
\<close>

theorem generation_error_counterexample:
  "audioChunks (generateAudio charCodes fromCharCodes
      [Connected, SetupDone, Message (Some [Some ''AB''])]) = [[65, 66]]
   \<and> settled (generateAudio charCodes fromCharCodes
      [Connected, SetupDone, Message (Some [Some ''AB'']), SessionErrorEvent])
     = Some (Rejected SessionError)"
  by (simp add: generation_defs)

text \<open>
  C9, amended. Take the state of a request after any sequence of events. While the
  promise is unsettled: a close of the session, or the collection timer, resolves it
  with the encoding of the concatenation of all collected chunks when at least one
  chunk was collected, and rejects it with the no-audio failure when none was; the
  initial timer, when no audio has arrived, rejects it with the no-audio failure; a
  session error, or a failure of the set-up calls, rejects it with that error, also
  when chunks were collected. Once the promise is settled no event changes its
  result.
\<close>

theorem generation_outcome:
  "(settled (generateAudio atob btoa es) = None \<longrightarrow>
      settled (handle atob btoa (generateAudio atob btoa es) Closed)
        = Some (if audioChunks (generateAudio atob btoa es) = [] then Rejected NoAudio
                else Resolved (btoa (concat (audioChunks (generateAudio atob btoa es)))))
    \<and> (collectionTimeout (generateAudio atob btoa es) \<longrightarrow>
        settled (handle atob btoa (generateAudio atob btoa es) CollectionTimeoutFires)
          = Some (if audioChunks (generateAudio atob btoa es) = [] then Rejected NoAudio
                  else Resolved (btoa (concat (audioChunks (generateAudio atob btoa es))))))
    \<and> (initialTimeout (generateAudio atob btoa es) \<and> \<not> hasReceivedAudio (generateAudio atob btoa es) \<longrightarrow>
        settled (handle atob btoa (generateAudio atob btoa es) InitialTimeoutFires)
          = Some (Rejected NoAudio))
    \<and> settled (handle atob btoa (generateAudio atob btoa es) SessionErrorEvent)
        = Some (Rejected SessionError)
    \<and> settled (handle atob btoa (generateAudio atob btoa es) SetupFailed)
        = Some (Rejected SetupError))
   \<and> (settled (generateAudio atob btoa es) \<noteq> None \<longrightarrow>
        settled (handle atob btoa (generateAudio atob btoa es) e)
          = settled (generateAudio atob btoa es))"
proof -
  let ?g = "generateAudio atob btoa es"
  have snd: "sound ?g" by (rule sound_generateAudio)
  have live: "settled (handle atob btoa ?g Closed)
        = Some (if audioChunks ?g = [] then Rejected NoAudio
                else Resolved (btoa (concat (audioChunks ?g))))"
    "collectionTimeout ?g \<longrightarrow>
        settled (handle atob btoa ?g CollectionTimeoutFires)
          = Some (if audioChunks ?g = [] then Rejected NoAudio
                  else Resolved (btoa (concat (audioChunks ?g))))"
    "initialTimeout ?g \<and> \<not> hasReceivedAudio ?g \<longrightarrow>
        settled (handle atob btoa ?g InitialTimeoutFires) = Some (Rejected NoAudio)"
    "settled (handle atob btoa ?g SessionErrorEvent) = Some (Rejected SessionError)"
    "settled (handle atob btoa ?g SetupFailed) = Some (Rejected SetupError)"
    if none: "settled ?g = None"
  proof -
    have op: "\<not> sessionClosed ?g" using snd none by (auto simp: sound_def)
    show "settled (handle atob btoa ?g Closed)
        = Some (if audioChunks ?g = [] then Rejected NoAudio
                else Resolved (btoa (concat (audioChunks ?g))))"
      using op cleanup_live [OF snd none] by (simp add: onclose_def)
    have "sound (?g\<lparr>collectionTimeout := False\<rparr>)" "settled (?g\<lparr>collectionTimeout := False\<rparr>) = None"
      using snd none by (simp_all add: sound_def)
    from cleanup_live [OF this]
    show "collectionTimeout ?g \<longrightarrow>
        settled (handle atob btoa ?g CollectionTimeoutFires)
          = Some (if audioChunks ?g = [] then Rejected NoAudio
                  else Resolved (btoa (concat (audioChunks ?g))))"
      by simp
    have "sound (?g\<lparr>initialTimeout := False\<rparr>)" "settled (?g\<lparr>initialTimeout := False\<rparr>) = None"
      using snd none by (simp_all add: sound_def)
    from cleanup_live [OF this]
    show "initialTimeout ?g \<and> \<not> hasReceivedAudio ?g \<longrightarrow>
        settled (handle atob btoa ?g InitialTimeoutFires) = Some (Rejected NoAudio)"
      using snd by (auto simp: sound_def)
    have rj: "settled (reject x ?g) = Some (Rejected x)" for x
      using none by (simp add: reject_def)
    show "settled (handle atob btoa ?g SessionErrorEvent) = Some (Rejected SessionError)"
      using settled_cleanup [of "reject SessionError ?g" btoa] rj [of SessionError]
      by (simp add: onerror_def)
    show "settled (handle atob btoa ?g SetupFailed) = Some (Rejected SetupError)"
      using settled_cleanup [of "reject SetupError ?g" btoa] rj [of SetupError]
      by simp
  qed
  have fin: "settled ?g \<noteq> None \<longrightarrow> settled (handle atob btoa ?g e) = settled ?g"
    using settled_handle [of ?g atob btoa e] by blast
  from live fin show ?thesis by blast
qed

theorem generation_outcome_witness:
  "settled (generateAudio charCodes fromCharCodes
      [Connected, SetupDone, Message (Some [Some ''AB'', None, Some ''C'']), Closed])
     = Some (Resolved (fromCharCodes [65, 66, 67]))
   \<and> settled (generateAudio charCodes fromCharCodes
      [Connected, SetupDone, Message (Some [Some ''AB'', None, Some ''C'']), Closed, SessionErrorEvent])
     = Some (Resolved (fromCharCodes [65, 66, 67]))"
proof -
  let ?es = "[Connected, SetupDone, Message (Some [Some ''AB'', None, Some ''C''])]"
  have live: "settled (generateAudio charCodes fromCharCodes ?es) = None"
    by (simp add: generation_defs)
  have chunks: "audioChunks (generateAudio charCodes fromCharCodes ?es) = [[65, 66], [67]]"
    by (simp add: generation_defs)
  have a: "settled (generateAudio charCodes fromCharCodes (?es @ [Closed]))
             = Some (Resolved (fromCharCodes [65, 66, 67]))"
    using generation_outcome [of charCodes fromCharCodes ?es] live chunks
    by (simp only: generateAudio_snoc) simp
  have "settled (generateAudio charCodes fromCharCodes ((?es @ [Closed]) @ [SessionErrorEvent]))
             = settled (generateAudio charCodes fromCharCodes (?es @ [Closed]))"
    using generation_outcome [of charCodes fromCharCodes "?es @ [Closed]" SessionErrorEvent] a
    by (simp only: generateAudio_snoc) simp
  with a show ?thesis by simp
qed

end
